theory Spec2Isabelle
  imports Complex_Main "HOL-Library.Sublist" "HOL-Library.Char_ord" "HOL-Library.List_Lexorder"
begin

section \<open>Strings and numbers as the server uses them\<close>

text \<open>
  The server is written in TypeScript; its strings are modelled as \<^typ>\<open>string\<close>
  (lists of characters, ASCII range), its integral numbers as \<^typ>\<open>int\<close>.
  A value that may be \<^verbatim>\<open>undefined\<close> is an \<^typ>\<open>'a option\<close>.
\<close>

definition nl :: string where
  "nl = [CHR 0x0A]"

definition dq :: string where
  "dq = [CHR 0x22]"

text \<open>\<^verbatim>\<open>Number.prototype.toString\<close> on an integral number: decimal digits, a leading minus sign.\<close>

definition digit_char :: "nat \<Rightarrow> char" where
  "digit_char d =
     (if d = 0 then CHR ''0'' else if d = 1 then CHR ''1'' else if d = 2 then CHR ''2''
      else if d = 3 then CHR ''3'' else if d = 4 then CHR ''4'' else if d = 5 then CHR ''5''
      else if d = 6 then CHR ''6'' else if d = 7 then CHR ''7'' else if d = 8 then CHR ''8''
      else CHR ''9'')"

fun show_nat :: "nat \<Rightarrow> string" where
  "show_nat n = (if n < 10 then [digit_char n] else show_nat (n div 10) @ [digit_char (n mod 10)])"

declare show_nat.simps [simp del]

definition toString :: "int \<Rightarrow> string" where
  "toString i = (if i < 0 then CHR ''-'' # show_nat (nat (- i)) else show_nat (nat i))"

text \<open>\<^verbatim>\<open>Array.prototype.join\<close>.\<close>

fun join :: "string \<Rightarrow> string list \<Rightarrow> string" where
  "join sep [] = []"
| "join sep [x] = x"
| "join sep (x # y # ys) = x @ sep @ join sep (y # ys)"

text \<open>\<^verbatim>\<open>String.prototype.toLowerCase\<close>, on the ASCII letters.\<close>

definition lower_char :: "char \<Rightarrow> char" where
  "lower_char c =
     (if CHR ''A'' \<le> c \<and> c \<le> CHR ''Z'' then char_of (of_char c + (32::nat)) else c)"

definition toLowerCase :: "string \<Rightarrow> string" where
  "toLowerCase s = map lower_char s"

definition upper_char :: "char \<Rightarrow> char" where
  "upper_char c =
     (if CHR ''a'' \<le> c \<and> c \<le> CHR ''z'' then char_of (of_char c - (32::nat)) else c)"

definition toUpperCase :: "string \<Rightarrow> string" where
  "toUpperCase s = map upper_char s"

text \<open>\<^verbatim>\<open>String.prototype.includes\<close>: the needle occurs as a contiguous run of the haystack.\<close>

fun str_includes :: "string \<Rightarrow> string \<Rightarrow> bool" where
  "str_includes [] needle = (needle = [])"
| "str_includes (c # cs) needle = (prefix needle (c # cs) \<or> str_includes cs needle)"

text \<open>
  \<^verbatim>\<open>String.prototype.replace\<close> with a string pattern: only the first occurrence is
  replaced (the replacement texts used by the server contain no \<^verbatim>\<open>$\<close> pattern).
\<close>

fun replace_first :: "string \<Rightarrow> string \<Rightarrow> string \<Rightarrow> string" where
  "replace_first pat rep [] = (if pat = [] then rep else [])"
| "replace_first pat rep (c # cs) =
     (if prefix pat (c # cs) then rep @ drop (length pat) (c # cs)
      else c # replace_first pat rep cs)"

text \<open>\<^verbatim>\<open>String.prototype.endsWith\<close> and \<^verbatim>\<open>slice(0, -5)\<close>.\<close>

definition endsWith :: "string \<Rightarrow> string \<Rightarrow> bool" where
  "endsWith s suf = suffix suf s"

text \<open>
  \<^verbatim>\<open>slice(0, n)\<close> on an array or a string, for an integral \<open>n\<close>: a negative \<open>n\<close> counts
  from the end.
\<close>

definition slice0 :: "int \<Rightarrow> 'a list \<Rightarrow> 'a list" where
  "slice0 n xs = (if 0 \<le> n then take (nat n) xs else take (length xs - nat (- n)) xs)"

text \<open>Truthiness of an optional string: \<^verbatim>\<open>undefined\<close> and the empty string are falsy.\<close>

fun truthy :: "string option \<Rightarrow> bool" where
  "truthy None = False"
| "truthy (Some s) = (s \<noteq> [])"

text \<open>\<^verbatim>\<open>a || b\<close> on an optional string with a string default.\<close>

definition or_else :: "string option \<Rightarrow> string \<Rightarrow> string" where
  "or_else a b = (case a of Some s \<Rightarrow> (if s \<noteq> [] then s else b) | None \<Rightarrow> b)"

text \<open>A template literal prints \<^verbatim>\<open>undefined\<close> for a missing value.\<close>

definition tmpl :: "string option \<Rightarrow> string" where
  "tmpl a = (case a of Some s \<Rightarrow> s | None \<Rightarrow> ''undefined'')"

section \<open>The data the interpreter hands to the server\<close>

text \<open>
  The server obtains every tournament through the \<^verbatim>\<open>sciolyff\<close> interpreter, an external
  library. Its objects are modelled by the fields the server reads.
\<close>

record tinfo =
  t_name :: "string option"
  t_level :: string
  t_state :: string
  t_location :: string

record team =
  number :: int
  school :: "string option"
  location :: "string option"
  suffix :: "string option"
  disqualified :: bool
  exhibition :: bool
  rank :: int
  points :: int

record event =
  e_name :: string

text \<open>
  A placing refers to its team and its event; the server reads only the team's number and
  the event's name. The fields \<open>p_tie\<close> and \<open>p_dropped\<close> are the truthiness of the
  properties \<^verbatim>\<open>tie\<close> and \<^verbatim>\<open>dropped\<close> that the handlers read from the placing object,
  \<open>p_points\<close> is its \<^verbatim>\<open>points\<close> property (0 when falsy).
\<close>

record placing =
  p_team_number :: int
  p_event_name :: string
  p_place :: "int option"
  p_tie :: bool
  p_points :: int
  p_dropped :: bool

record interpreter =
  tournament :: tinfo
  teams :: "team list"
  events :: "event list"
  placings :: "placing list"

section \<open>tournamentTitle\<close>

definition expandStateName :: "string \<Rightarrow> string" where
  "expandStateName st = replace_first ''nCA'' ''NorCal'' (replace_first ''sCA'' ''SoCal'' st)"

definition tournamentTitle :: "tinfo \<Rightarrow> string option" where
  "tournamentTitle tInfo =
     (if truthy (t_name tInfo) then t_name tInfo
      else if t_level tInfo = ''Nationals'' then Some ''Science Olympiad National Tournament''
      else if t_level tInfo = ''States''
        then Some (expandStateName (t_state tInfo) @ '' Science Olympiad State Tournament'')
      else if t_level tInfo = ''Regionals'' then Some (t_location tInfo @ '' Regional Tournament'')
      else if t_level tInfo = ''Invitational'' then Some (t_location tInfo @ '' Invitational'')
      else None)"

section \<open>Errors, the record store and the loader\<close>

text \<open>
  A thrown JavaScript error, by the two properties the handlers read:
  \<^verbatim>\<open>error.code\<close> and \<^verbatim>\<open>error.message\<close>.
\<close>

record js_error =
  err_code :: "string option"
  err_message :: string

datatype error_code = InternalError | MethodNotFound | InvalidRequest

datatype mcp_error = McpError error_code string

text \<open>
  The record store: for a tournament id, what \<^verbatim>\<open>fs.readFile\<close> of
  \<^verbatim>\<open><DUOSMIUM_PATH>/data/results/<id>.yaml\<close>, then \<^verbatim>\<open>yaml.load\<close>, then
  \<^verbatim>\<open>new Interpreter(data)\<close> give: the error thrown by the first step that fails, or the
  parsed data together with the interpreter built from it.
\<close>

type_synonym 'd store = "string \<Rightarrow> js_error + ('d \<times> interpreter)"

definition loadInterpreter :: "'d store \<Rightarrow> string \<Rightarrow> js_error + interpreter" where
  "loadInterpreter st tournamentId =
     (case st tournamentId of Inl e \<Rightarrow> Inl e | Inr (data, ip) \<Rightarrow> Inr ip)"

text \<open>
  The \<^verbatim>\<open>catch\<close> block shared by the tournament handlers: \<^verbatim>\<open>ENOENT\<close> becomes a
  normal text answer, every other error an \<^verbatim>\<open>McpError\<close> with the handler's prefix.
\<close>

definition on_error :: "string \<Rightarrow> string \<Rightarrow> js_error \<Rightarrow> mcp_error + string" where
  "on_error what tournamentId e =
     (if err_code e = Some ''ENOENT''
      then Inr (''Tournament '' @ dq @ tournamentId @ dq @ '' not found'')
      else Inl (McpError InternalError (what @ err_message e)))"

section \<open>findTeam\<close>

definition team_matches :: "string \<Rightarrow> team \<Rightarrow> bool" where
  "team_matches teamId t =
     (toString (number t) = teamId \<or>
      (case school t of None \<Rightarrow> False
       | Some s \<Rightarrow> str_includes (toLowerCase s) (toLowerCase teamId)))"

definition findTeam :: "interpreter \<Rightarrow> string \<Rightarrow> team option" where
  "findTeam ip teamId = List.find (team_matches teamId) (teams ip)"

section \<open>get\_team\_placement\<close>

definition yes_no :: "bool \<Rightarrow> string" where
  "yes_no b = (if b then ''Yes'' else ''No'')"

definition display_name :: "interpreter \<Rightarrow> string \<Rightarrow> string" where
  "display_name ip tournamentId = or_else (t_name (tournament ip)) tournamentId"

definition team_label :: "team \<Rightarrow> string" where
  "team_label t = tmpl (school t) @ '' (#'' @ toString (number t) @ '')''"

definition tieText :: "placing \<Rightarrow> string" where
  "tieText p = (if p_tie p then '' (tie)'' else [])"

definition placeText :: "placing \<Rightarrow> string" where
  "placeText p =
     (case p_place p of
        None \<Rightarrow> ''N/A''
      | Some n \<Rightarrow> (if n = 0 then ''DQ/NS'' else toString n))"

definition pointsText :: "placing \<Rightarrow> string" where
  "pointsText p = (if p_points p = 0 then ''N/A'' else toString (p_points p))"

definition overall_text :: "interpreter \<Rightarrow> string \<Rightarrow> team \<Rightarrow> string" where
  "overall_text ip tournamentId t =
     ''Team: '' @ team_label t @ nl @
     ''Overall Rank: '' @ toString (rank t) @ nl @
     ''Total Points: '' @ toString (points t) @ nl @
     ''Tournament: '' @ display_name ip tournamentId @ nl @
     ''Disqualified: '' @ yes_no (disqualified t) @ nl @
     ''Exhibition: '' @ yes_no (exhibition t)"

definition placement_text :: "interpreter \<Rightarrow> string \<Rightarrow> team \<Rightarrow> string \<Rightarrow> placing \<Rightarrow> string" where
  "placement_text ip tournamentId t ev p =
     ''Team: '' @ team_label t @ nl @
     ''Event: '' @ ev @ nl @
     ''Placement: '' @ placeText p @ tieText p @ nl @
     ''Points: '' @ pointsText p @ nl @
     ''Tournament: '' @ display_name ip tournamentId"

definition team_not_found :: "string \<Rightarrow> string \<Rightarrow> string" where
  "team_not_found teamId tournamentId =
     ''Team '' @ dq @ teamId @ dq @ '' not found in tournament '' @ dq @ tournamentId @ dq"

definition get_team_placement ::
  "'d store \<Rightarrow> string \<Rightarrow> string \<Rightarrow> string option \<Rightarrow> mcp_error + string" where
  "get_team_placement st tournamentId teamId ev =
     (case loadInterpreter st tournamentId of
        Inl e \<Rightarrow> on_error ''Failed to get team placement: '' tournamentId e
      | Inr ip \<Rightarrow>
          (case findTeam ip teamId of
             None \<Rightarrow> Inr (team_not_found teamId tournamentId)
           | Some t \<Rightarrow>
               (case ev of
                  None \<Rightarrow> Inr (overall_text ip tournamentId t)
                | Some en \<Rightarrow>
                    if en = [] then Inr (overall_text ip tournamentId t)
                    else
                      (case List.find (\<lambda>p. p_team_number p = number t \<and> p_event_name p = en)
                              (placings ip) of
                         None \<Rightarrow>
                           Inr (''No placement found for team '' @ dq @ tmpl (school t) @ dq @
                                '' (#'' @ toString (number t) @ '') in event '' @ dq @ en @ dq)
                       | Some p \<Rightarrow> Inr (placement_text ip tournamentId t en p)))))"

section \<open>get\_tournament\_rankings\<close>


definition status_list :: "string \<Rightarrow> team \<Rightarrow> string list" where
  "status_list dq_word t =
     (if disqualified t then [dq_word] else []) @ (if exhibition t then [''Exhibition''] else [])"




section \<open>get\_tournament\_info and fetch\<close>

definition info_text :: "interpreter \<Rightarrow> string \<Rightarrow> string" where
  "info_text ip tournamentId =
     ''Tournament: '' @ display_name ip tournamentId @ nl @ nl @
     ''Teams ('' @ toString (int (length (teams ip))) @ ''):'' @ nl @
     join nl (map team_label (teams ip)) @ nl @ nl @
     ''Events ('' @ toString (int (length (events ip))) @ ''):'' @ nl @
     join nl (map e_name (events ip))"

definition get_tournament_info :: "'d store \<Rightarrow> string \<Rightarrow> mcp_error + string" where
  "get_tournament_info st tournamentId =
     (case loadInterpreter st tournamentId of
        Inl e \<Rightarrow> on_error ''Failed to get tournament info: '' tournamentId e
      | Inr ip \<Rightarrow> Inr (info_text ip tournamentId))"

text \<open>
  The object that \<^verbatim>\<open>fetch\<close> serialises with \<^verbatim>\<open>JSON.stringify\<close>; a title that is
  \<^verbatim>\<open>undefined\<close> is left out of the JSON text, here \<open>None\<close>.
\<close>

record 'd fetch_json =
  f_id :: string
  f_title :: "string option"
  f_text :: 'd
  f_url :: string

datatype 'd fetch_content = Text string | Json "'d fetch_json"

definition fetch_tool :: "'d store \<Rightarrow> string \<Rightarrow> mcp_error + 'd fetch_content" where
  "fetch_tool st ident =
     (case st ident of
        Inl e \<Rightarrow>
          (case on_error ''Failed to fetch tournament data: '' ident e of
             Inl err \<Rightarrow> Inl err
           | Inr txt \<Rightarrow> Inr (Text txt))
      | Inr (data, ip) \<Rightarrow>
          Inr (Json \<lparr> f_id = ident, f_title = tournamentTitle (tournament ip), f_text = data,
                      f_url = ''https://www.duosmium.org/results/'' @ ident \<rparr>))"

section \<open>get\_team\_all\_placements\<close>

definition teamPlacements :: "interpreter \<Rightarrow> team \<Rightarrow> placing list" where
  "teamPlacements ip t = filter (\<lambda>p. p_team_number p = number t) (placings ip)"

definition droppedText :: "placing \<Rightarrow> string" where
  "droppedText p = (if p_dropped p then '' [DROPPED]'' else [])"

definition placement_detail :: "placing \<Rightarrow> string" where
  "placement_detail p =
     p_event_name p @ '': '' @ placeText p @ tieText p @ '' ('' @ pointsText p @ '' points)'' @
     droppedText p"

definition truthy_list :: "string option list \<Rightarrow> string list" where
  "truthy_list xs = concat (map (\<lambda>x. case x of None \<Rightarrow> [] | Some s \<Rightarrow> (if s \<noteq> [] then [s] else [])) xs)"

definition all_placements_text :: "interpreter \<Rightarrow> string \<Rightarrow> team \<Rightarrow> string" where
  "all_placements_text ip tournamentId t =
     (let teamInfo = truthy_list [location t, suffix t];
          status = status_list ''Disqualified'' t
      in ''Team: '' @ team_label t @
         (if teamInfo \<noteq> [] then '' ('' @ join '', '' teamInfo @ '')'' else []) @ nl @
         ''Overall Rank: '' @ toString (rank t) @ nl @
         ''Total Points: '' @ toString (points t) @
         (if status \<noteq> [] then nl @ ''Status: '' @ join '', '' status else []) @ nl @
         ''Tournament: '' @ display_name ip tournamentId @ nl @ nl @
         ''Event Placements ('' @ toString (int (length (teamPlacements ip t))) @ ''):'' @ nl @
         join nl (map placement_detail (teamPlacements ip t)))"

definition get_team_all_placements ::
  "'d store \<Rightarrow> string \<Rightarrow> string \<Rightarrow> mcp_error + string" where
  "get_team_all_placements st tournamentId teamId =
     (case loadInterpreter st tournamentId of
        Inl e \<Rightarrow> on_error ''Failed to get team all placements: '' tournamentId e
      | Inr ip \<Rightarrow>
          (case findTeam ip teamId of
             None \<Rightarrow> Inr (team_not_found teamId tournamentId)
           | Some t \<Rightarrow>
               if teamPlacements ip t = []
               then Inr (''No placements found for team '' @ dq @ tmpl (school t) @ dq @
                         '' (#'' @ toString (number t) @ '')'')
               else Inr (all_placements_text ip tournamentId t)))"

section \<open>getAvailableTournaments and list\_tournaments\<close>

text \<open>
  The argument is what \<^verbatim>\<open>fs.readdir\<close> of the results directory gives: the error it
  throws, or the file names. The \<^verbatim>\<open>catch\<close> block logs the error and returns the empty
  list. \<^verbatim>\<open>sort()\<close> without a comparator orders strings by their code units.
\<close>

definition getAvailableTournaments :: "js_error + string list \<Rightarrow> string list" where
  "getAvailableTournaments rd =
     (case rd of
        Inl e \<Rightarrow> []
      | Inr files \<Rightarrow> sort (map (slice0 (- 5)) (filter (\<lambda>file. endsWith file ''.yaml'') files)))"

definition list_tournaments :: "js_error + string list \<Rightarrow> mcp_error + string" where
  "list_tournaments rd =
     (let tournaments = getAvailableTournaments rd
      in Inr (''Available Tournaments ('' @ toString (int (length tournaments)) @ ''):'' @ nl @
              join nl tournaments))"

section \<open>search, corpus variant\<close>

record corpus_entry =
  c_type :: string
  c_id :: string
  c_name :: string
  c_details :: string
  c_searchableText :: string

text \<open>
  \<^verbatim>\<open>Fuse\<close> is an external library: a matcher is a parameter, taking the collection and
  the query to the matched items with their scores (modelled as rationals), best first.
\<close>

type_synonym 'e matcher = "'e list \<Rightarrow> string \<Rightarrow> ('e \<times> rat) list"

definition tournament_entry :: "string \<Rightarrow> interpreter \<Rightarrow> corpus_entry" where
  "tournament_entry tournamentId ip =
     (let tournamentName = display_name ip tournamentId
      in \<lparr> c_type = ''tournament'', c_id = tournamentId, c_name = tournamentName,
           c_details = toString (int (length (teams ip))) @ '' teams, '' @
                       toString (int (length (events ip))) @ '' events'',
           c_searchableText = toLowerCase (tournamentName @ '' '' @ tournamentId) \<rparr>)"

definition team_entry :: "string \<Rightarrow> interpreter \<Rightarrow> team \<Rightarrow> corpus_entry" where
  "team_entry tournamentId ip t =
     (let tournamentName = display_name ip tournamentId;
          teamName = or_else (school t) [];
          loc = or_else (location t) []
      in \<lparr> c_type = ''team'', c_id = tournamentId @ '':'' @ toString (number t), c_name = teamName,
           c_details = join '' '' (filter (\<lambda>x. x \<noteq> [])
                         [''#'' @ toString (number t),
                          (if loc \<noteq> [] then ''('' @ loc @ '')'' else []),
                          ''Rank: '' @ toString (rank t),
                          ''in '' @ tournamentName]),
           c_searchableText = toLowerCase (teamName @ '' '' @ loc @ '' '' @ toString (number t) @
                                           '' '' @ tournamentName) \<rparr>)"

text \<open>
  The loop over the tournament ids with its two accumulators \<^verbatim>\<open>allTournaments\<close> and
  \<^verbatim>\<open>allTeams\<close>; a tournament that fails to load takes the \<^verbatim>\<open>continue\<close> of the inner
  \<^verbatim>\<open>catch\<close>.
\<close>

fun collect_entries ::
  "'d store \<Rightarrow> string \<Rightarrow> string list \<Rightarrow> corpus_entry list \<times> corpus_entry list \<Rightarrow>
   corpus_entry list \<times> corpus_entry list" where
  "collect_entries st ty [] acc = acc"
| "collect_entries st ty (tournamentId # rest) (allTournaments, allTeams) =
     (case loadInterpreter st tournamentId of
        Inl e \<Rightarrow> collect_entries st ty rest (allTournaments, allTeams)
      | Inr ip \<Rightarrow>
          collect_entries st ty rest
            (allTournaments @
               (if ty = ''tournament'' \<or> ty = ''both'' then [tournament_entry tournamentId ip] else []),
             allTeams @
               (if ty = ''team'' \<or> ty = ''both'' then map (team_entry tournamentId ip) (teams ip) else [])))"

text \<open>The \<^verbatim>\<open>sortedResults\<close> of the handler, over the ids that the directory listing gave.\<close>

definition corpus_results ::
  "corpus_entry matcher \<Rightarrow> 'd store \<Rightarrow> string list \<Rightarrow> string \<Rightarrow> string \<Rightarrow> int \<Rightarrow>
   (corpus_entry \<times> rat) list" where
  "corpus_results fuse st ids query ty limit =
     (case collect_entries st ty ids ([], []) of
        (allTournaments, allTeams) \<Rightarrow>
          slice0 limit
            (sort_key snd
               ((if allTournaments \<noteq> [] then fuse allTournaments query else []) @
                (if allTeams \<noteq> [] then fuse allTeams query else []))))"

definition corpus_text :: "string \<Rightarrow> string \<Rightarrow> (corpus_entry \<times> rat) list \<Rightarrow> string" where
  "corpus_text query ty sortedResults =
     (if sortedResults = []
      then ''No '' @ (if ty = ''both'' then ''tournaments or teams'' else ty @ ''s'') @
           '' found matching '' @ dq @ query @ dq
      else ''Search results for '' @ dq @ query @ dq @ '' ('' @
           toString (int (length sortedResults)) @ '' found):'' @ nl @ nl @
           join (nl @ nl) (map (\<lambda>r. toUpperCase (c_type (fst r)) @ '': '' @ c_id (fst r)) sortedResults))"

definition search_corpus ::
  "corpus_entry matcher \<Rightarrow> js_error + string list \<Rightarrow> 'd store \<Rightarrow> string \<Rightarrow> string option \<Rightarrow>
   int option \<Rightarrow> mcp_error + string" where
  "search_corpus fuse rd st query ty_arg limit_arg =
     (let ty = (case ty_arg of None \<Rightarrow> ''both'' | Some t \<Rightarrow> t);
          limit = (case limit_arg of None \<Rightarrow> 10 | Some l \<Rightarrow> l)
      in Inr (corpus_text query ty
                (corpus_results fuse st (getAvailableTournaments rd) query ty limit)))"

section \<open>search, catalog variant\<close>

text \<open>
  The query is normalised first: \<^verbatim>\<open>query.toLowerCase().replace(/\bteam\b/g, 'school')\<close>.
  A word character of the regular expression is a letter, a digit or an underscore; the
  flag of \<open>replace_team\<close> says whether the character before the current position is one.
\<close>

definition is_word_char :: "char \<Rightarrow> bool" where
  "is_word_char c =
     ((CHR ''a'' \<le> c \<and> c \<le> CHR ''z'') \<or> (CHR ''A'' \<le> c \<and> c \<le> CHR ''Z'') \<or>
      (CHR ''0'' \<le> c \<and> c \<le> CHR ''9'') \<or> c = CHR ''_'')"

fun replace_team :: "bool \<Rightarrow> string \<Rightarrow> string" where
  "replace_team prev_word [] = []"
| "replace_team prev_word (c # cs) =
     (if \<not> prev_word \<and> prefix ''team'' (c # cs) \<and>
         \<not> (case drop 3 cs of [] \<Rightarrow> False | d # ds \<Rightarrow> is_word_char d)
      then ''school'' @ replace_team True (drop 3 cs)
      else c # replace_team (is_word_char c) cs)"

definition normalizedQuery :: "string \<Rightarrow> string" where
  "normalizedQuery query = replace_team False (toLowerCase query)"

text \<open>
  A response of \<^verbatim>\<open>fetch\<close>: its \<^verbatim>\<open>ok\<close> flag, its status and what reading its body
  gives (\<^verbatim>\<open>json()\<close> or \<^verbatim>\<open>text()\<close>: the error thrown, or the value).
\<close>

record 'b response =
  ok :: bool
  status :: int
  body :: "js_error + 'b"

text \<open>
  \<^verbatim>\<open>Promise.all\<close> of two promises: rejected with the reason of the promise that is
  rejected first; the flag says that the first promise settles first.
\<close>

definition promise_all2 ::
  "bool \<Rightarrow> js_error + 'a \<Rightarrow> js_error + 'b \<Rightarrow> js_error + ('a \<times> 'b)" where
  "promise_all2 first_settles_first a b =
     (case a of
        Inl e1 \<Rightarrow> (case b of Inl e2 \<Rightarrow> Inl (if first_settles_first then e1 else e2) | Inr y \<Rightarrow> Inl e1)
      | Inr x \<Rightarrow> (case b of Inl e2 \<Rightarrow> Inl e2 | Inr y \<Rightarrow> Inr (x, y)))"

text \<open>An entry of the catalog's tournament list, by the fields the handler prints.\<close>

record tmeta =
  m_title :: "string option"
  m_filename :: "string option"
  m_location :: "string option"
  m_division :: "string option"
  m_year :: "int option"
  m_official :: bool
  m_keywords :: "string option"

text \<open>The search entry; its \<^verbatim>\<open>metadata\<close> field is never read and is left out.\<close>

record catalog_entry =
  s_type :: string
  s_name :: string
  s_id :: "string option"
  s_details :: string
  s_searchText :: string

definition bullet :: string where
  "bullet = [CHR 0xE2, CHR 0x80, CHR 0xA2]"

definition tournament_search_entry :: "tmeta \<Rightarrow> catalog_entry" where
  "tournament_search_entry tm =
     (let name = or_else (m_title tm) (or_else (m_filename tm) ''Unknown Tournament'');
          loc = or_else (m_location tm) [];
          division = or_else (m_division tm) [];
          year = (case m_year tm of None \<Rightarrow> [] | Some y \<Rightarrow> (if y = 0 then [] else toString y));
          official = (if m_official tm then ''Official'' else ''Unofficial'');
          keywords = or_else (m_keywords tm) []
      in \<lparr> s_type = ''tournament'', s_name = name, s_id = m_filename tm,
           s_details = division @ '' Division '' @ bullet @ '' '' @ year @ '' '' @ bullet @ '' '' @
                       loc @ '' '' @ bullet @ '' '' @ official,
           s_searchText = toLowerCase (name @ '' '' @ loc @ '' '' @ division @ '' '' @ year @ '' '' @
                                       tmpl (m_filename tm) @ '' '' @ keywords) \<rparr>)"

text \<open>\<^verbatim>\<open>String.prototype.split\<close> on a one-character separator, and \<^verbatim>\<open>trim\<close>.\<close>

fun split_on :: "char \<Rightarrow> string \<Rightarrow> string list" where
  "split_on d [] = [[]]"
| "split_on d (c # cs) =
     (if c = d then [] # split_on d cs
      else (case split_on d cs of [] \<Rightarrow> [[c]] | w # ws \<Rightarrow> (c # w) # ws))"

definition is_space :: "char \<Rightarrow> bool" where
  "is_space c = (c = CHR '' '' \<or> (CHR 0x09 \<le> c \<and> c \<le> CHR 0x0D))"

definition trim :: "string \<Rightarrow> string" where
  "trim s = rev (dropWhile is_space (rev (dropWhile is_space s)))"

text \<open>
  \<^verbatim>\<open>part.replace(/^"(.*)"$/, '$1')\<close>: a part that starts and ends with a double quote,
  with no line terminator between them, loses the two quotes.
\<close>

definition strip_quotes :: "string \<Rightarrow> string" where
  "strip_quotes s =
     (case s of
        [] \<Rightarrow> []
      | c # rest \<Rightarrow>
          (if c = CHR 0x22 \<and> rest \<noteq> [] \<and> last rest = CHR 0x22 \<and>
              CHR 0x0A \<notin> set (butlast rest) \<and> CHR 0x0D \<notin> set (butlast rest)
           then butlast rest else s))"

definition nth_or_empty :: "string list \<Rightarrow> nat \<Rightarrow> string" where
  "nth_or_empty parts i = (if i < length parts then parts ! i else [])"

definition school_search_entry :: "string \<Rightarrow> nat \<Rightarrow> catalog_entry list" where
  "school_search_entry line index =
     (let parts = map (\<lambda>part. trim (strip_quotes part)) (split_on CHR '','' line);
          schoolName = nth_or_empty parts 0;
          city = nth_or_empty parts 1;
          state = nth_or_empty parts 2
      in if schoolName \<noteq> []
         then [\<lparr> s_type = ''school'', s_name = schoolName,
                 s_id = Some (''school-'' @ toString (int index)),
                 s_details = (let locationStr = join '', '' (filter (\<lambda>x. x \<noteq> []) [city, state])
                              in if locationStr \<noteq> [] then locationStr else ''Location not specified''),
                 s_searchText = toLowerCase (schoolName @ '' '' @ city @ '' '' @ state @ '' team'') \<rparr>]
         else [])"

definition searchData :: "string \<Rightarrow> tmeta list \<Rightarrow> string \<Rightarrow> catalog_entry list" where
  "searchData ty tournaments schoolsCsvText =
     (if ty = ''tournament'' \<or> ty = ''all'' then map tournament_search_entry tournaments else []) @
     (if ty = ''school'' \<or> ty = ''all''
      then (let schoolLines = filter (\<lambda>line. trim line \<noteq> []) (split_on CHR 0x0A schoolsCsvText)
            in concat (map (\<lambda>(line, index). school_search_entry line index)
                         (zip schoolLines [0 ..< length schoolLines])))
      else [])"

text \<open>
  The body of the handler's \<^verbatim>\<open>try\<close> block up to \<^verbatim>\<open>searchResults\<close>: the error thrown,
  or the matched entries with their scores, truncated to the limit.
\<close>

definition catalog_results ::
  "catalog_entry matcher \<Rightarrow> bool \<Rightarrow> js_error + (tmeta list) response \<Rightarrow>
   js_error + string response \<Rightarrow> string \<Rightarrow> string \<Rightarrow> int \<Rightarrow>
   js_error + (catalog_entry \<times> rat) list" where
  "catalog_results fuse first_settles_first tournamentsFetch schoolsFetch query ty limit =
     (case promise_all2 first_settles_first tournamentsFetch schoolsFetch of
        Inl e \<Rightarrow> Inl e
      | Inr (tournamentsResponse, schoolsResponse) \<Rightarrow>
          if \<not> ok tournamentsResponse
          then Inl \<lparr> err_code = None,
                     err_message = ''Failed to fetch tournaments: '' @ toString (status tournamentsResponse) \<rparr>
          else if \<not> ok schoolsResponse
          then Inl \<lparr> err_code = None,
                     err_message = ''Failed to fetch schools: '' @ toString (status schoolsResponse) \<rparr>
          else
            (case body tournamentsResponse of
               Inl e \<Rightarrow> Inl e
             | Inr tournaments \<Rightarrow>
                 (case body schoolsResponse of
                    Inl e \<Rightarrow> Inl e
                  | Inr schoolsCsvText \<Rightarrow>
                      Inr (slice0 limit
                             (fuse (searchData ty tournaments schoolsCsvText)
                                (normalizedQuery query))))))"

text \<open>
  \<^verbatim>\<open>(score * 100).toFixed(1)\<close> on a score that is not negative: the nearest number
  with one decimal, the larger one at a tie.
\<close>

definition toFixed1 :: "rat \<Rightarrow> string" where
  "toFixed1 x =
     (let n = nat \<lfloor>x * 10 + 1 / 2\<rfloor>
      in show_nat (n div 10) @ ''.'' @ show_nat (n mod 10))"

fun bump :: "string \<Rightarrow> (string \<times> nat) list \<Rightarrow> (string \<times> nat) list" where
  "bump k [] = [(k, 1)]"
| "bump k ((k', n) # rest) = (if k = k' then (k', n + 1) # rest else (k', n) # bump k rest)"

definition typeBreakdown :: "(catalog_entry \<times> rat) list \<Rightarrow> (string \<times> nat) list" where
  "typeBreakdown searchResults = foldl (\<lambda>acc result. bump (s_type (fst result)) acc) [] searchResults"

definition plural :: "nat \<Rightarrow> string" where
  "plural n = (if n = 1 then [] else ''s'')"

definition formatted_result :: "catalog_entry \<times> rat \<Rightarrow> string" where
  "formatted_result result =
     (let item = fst result;
          score = (if snd result \<noteq> 0 then '' ('' @ toFixed1 (snd result * 100) @ ''% match)'' else [])
      in toUpperCase (s_type item) @ '': '' @ s_name item @ nl @
         ''  '' @ s_details item @ score @ nl @
         ''  ID: '' @ tmpl (s_id item))"

definition catalog_text :: "string \<Rightarrow> string \<Rightarrow> (catalog_entry \<times> rat) list \<Rightarrow> string" where
  "catalog_text query ty searchResults =
     (if searchResults = []
      then ''No '' @ (if ty = ''all'' then ''tournaments or schools'' else ty @ ''s'') @
           '' found matching '' @ dq @ query @ dq
      else ''Found '' @ toString (int (length searchResults)) @ '' result'' @
           plural (length searchResults) @ '' for '' @ dq @ query @ dq @ '' ('' @
           join '', '' (map (\<lambda>(t, count). toString (int count) @ '' '' @ t @ plural count)
                          (typeBreakdown searchResults)) @
           ''):'' @ nl @ nl @ join (nl @ nl) (map formatted_result searchResults))"

definition search_catalog ::
  "catalog_entry matcher \<Rightarrow> bool \<Rightarrow> js_error + (tmeta list) response \<Rightarrow>
   js_error + string response \<Rightarrow> string \<Rightarrow> string option \<Rightarrow> int option \<Rightarrow> mcp_error + string" where
  "search_catalog fuse first_settles_first tournamentsFetch schoolsFetch query ty_arg limit_arg =
     (let ty = (case ty_arg of None \<Rightarrow> ''all'' | Some t \<Rightarrow> t);
          limit = (case limit_arg of None \<Rightarrow> 20 | Some l \<Rightarrow> l)
      in case catalog_results fuse first_settles_first tournamentsFetch schoolsFetch query ty limit of
           Inl e \<Rightarrow> Inl (McpError InternalError (''Search failed: '' @ err_message e))
         | Inr searchResults \<Rightarrow> Inr (catalog_text query ty searchResults))"

text \<open>
  A fetch has failed when its promise is rejected (the source is unreachable) or its
  response is not \<^verbatim>\<open>ok\<close>: the two conditions under which the handler throws before it
  reads a body.
\<close>

definition fetch_failed :: "js_error + 'b response \<Rightarrow> bool" where
  "fetch_failed f = (case f of Inl e \<Rightarrow> True | Inr r \<Rightarrow> \<not> ok r)"


section \<open>Example data\<close>

text \<open>A small tournament, a nameless national tournament and a store holding them.\<close>

definition mk_team :: "int \<Rightarrow> string \<Rightarrow> int \<Rightarrow> int \<Rightarrow> team" where
  "mk_team n s r p =
     \<lparr> number = n, school = Some s, location = None, suffix = None, disqualified = False,
       exhibition = False, rank = r, points = p \<rparr>"

definition demo_teams :: "team list" where
  "demo_teams = [mk_team 7 ''Lincoln High School'' 1 40, mk_team 3 ''Lincoln Middle School'' 2 55,
                 mk_team 12 ''Adams Academy'' 3 61]"

definition mk_placing :: "int \<Rightarrow> string \<Rightarrow> int \<Rightarrow> bool \<Rightarrow> placing" where
  "mk_placing n e pl dr =
     \<lparr> p_team_number = n, p_event_name = e, p_place = Some pl, p_tie = False, p_points = pl,
       p_dropped = dr \<rparr>"

definition demo_ip :: interpreter where
  "demo_ip =
     \<lparr> tournament = \<lparr> t_name = Some ''Demo Invitational 2024'', t_level = ''Invitational'',
                       t_state = ''CA'', t_location = ''Demo High School'' \<rparr>,
       teams = demo_teams,
       events = [\<lparr> e_name = ''Anatomy'' \<rparr>, \<lparr> e_name = ''Write It Do It'' \<rparr>],
       placings = [mk_placing 7 ''Write It Do It'' 2 False, mk_placing 3 ''Write It Do It'' 1 False,
                   mk_placing 7 ''Anatomy'' 5 True, mk_placing 3 ''Anatomy'' 1 False] \<rparr>"

definition nats_ip :: interpreter where
  "nats_ip =
     \<lparr> tournament = \<lparr> t_name = None, t_level = ''Nationals'', t_state = ''MI'',
                       t_location = ''Michigan State University'' \<rparr>,
       teams = [], events = [], placings = [] \<rparr>"

definition enoent :: js_error where
  "enoent = \<lparr> err_code = Some ''ENOENT'', err_message = ''ENOENT: no such file or directory'' \<rparr>"

definition bad_yaml :: js_error where
  "bad_yaml = \<lparr> err_code = None, err_message = ''bad indentation of a mapping entry'' \<rparr>"

definition demo_store :: "unit store" where
  "demo_store tid =
     (if tid = ''demo-2024'' then Inr ((), demo_ip)
      else if tid = ''nats-2024'' then Inr ((), nats_ip)
      else if tid = ''broken'' then Inl bad_yaml
      else Inl enoent)"

definition states_info :: tinfo where
  "states_info = \<lparr> t_name = None, t_level = ''States'', t_state = ''sCA'', t_location = ''Caltech'' \<rparr>"

definition not_found_response :: "string response" where
  "not_found_response = \<lparr> ok = False, status = 404, body = Inr ''Not Found'' \<rparr>"

definition unreachable :: js_error where
  "unreachable = \<lparr> err_code = None, err_message = ''fetch failed'' \<rparr>"

definition catalog_tournaments :: "(tmeta list) response" where
  "catalog_tournaments =
     \<lparr> ok = True, status = 200,
       body = Inr [\<lparr> m_title = Some ''Demo Invitational'', m_filename = Some ''demo-2024'',
                      m_location = Some ''Demo High School'', m_division = Some ''C'',
                      m_year = Some 2024, m_official = True, m_keywords = Some ''demo'' \<rparr>] \<rparr>"

definition catalog_schools :: "string response" where
  "catalog_schools =
     \<lparr> ok = True, status = 200,
       body = Inr (''Lincoln High School,Portland,OR'' @ nl @ ''Adams Academy,Quincy,MA'' @ nl) \<rparr>"

text \<open>
  A matcher for the concrete inputs below, in the place of \<^verbatim>\<open>Fuse\<close>: it keeps, in
  their order, the items one of whose keys contains the query, ignoring case, with score 0.
\<close>

definition substring_matcher :: "('e \<Rightarrow> string list) \<Rightarrow> 'e matcher" where
  "substring_matcher keys items query =
     map (\<lambda>item. (item, 0))
       (filter (\<lambda>item. list_ex (\<lambda>k. str_includes (toLowerCase k) (toLowerCase query)) (keys item))
          items)"

definition corpus_keys :: "corpus_entry \<Rightarrow> string list" where
  "corpus_keys e = [c_searchableText e, c_name e]"

definition catalog_keys :: "catalog_entry \<Rightarrow> string list" where
  "catalog_keys e = [s_name e, s_searchText e]"

text \<open>The demo tournament with its placings listed event by event, in event-name order.\<close>

definition sorted_ip :: interpreter where
  "sorted_ip = demo_ip \<lparr> placings := [mk_placing 7 ''Anatomy'' 5 True, mk_placing 3 ''Anatomy'' 1 False,
                                       mk_placing 7 ''Write It Do It'' 2 False] \<rparr>"



section \<open>Facts about the string helpers\<close>

lemma str_includes_iff: "str_includes hay needle \<longleftrightarrow> (\<exists>a b. hay = a @ needle @ b)"
proof (induction hay)
  case Nil
  then show ?case by auto
next
  case (Cons c cs)
  show ?case
  proof
    assume "str_includes (c # cs) needle"
    then consider "prefix needle (c # cs)" | "str_includes cs needle" by auto
    then show "\<exists>a b. c # cs = a @ needle @ b"
    proof cases
      case 1
      then obtain b where "c # cs = needle @ b" by (auto simp: prefix_def)
      then have "c # cs = [] @ needle @ b" by simp
      then show ?thesis by blast
    next
      case 2
      with Cons.IH obtain a b where "cs = a @ needle @ b" by blast
      then have "c # cs = (c # a) @ needle @ b" by simp
      then show ?thesis by blast
    qed
  next
    assume "\<exists>a b. c # cs = a @ needle @ b"
    then obtain a b where ab: "c # cs = a @ needle @ b" by blast
    show "str_includes (c # cs) needle"
    proof (cases a)
      case Nil
      with ab have "prefix needle (c # cs)" by (simp add: prefix_def)
      then show ?thesis by simp
    next
      case (Cons x a')
      with ab have "cs = a' @ needle @ b" by simp
      with Cons.IH have "str_includes cs needle" by blast
      then show ?thesis by simp
    qed
  qed
qed

lemma replace_first_absent:
  "\<not> str_includes s pat \<Longrightarrow> replace_first pat rep s = s"
  by (induction s) auto

lemma find_first_iff:
  "List.find P xs = Some x \<longleftrightarrow>
     (\<exists>pre post. xs = pre @ x # post \<and> P x \<and> (\<forall>u\<in>set pre. \<not> P u))"
proof (induction xs)
  case Nil
  then show ?case by simp
next
  case (Cons y ys)
  show ?case
  proof (cases "P y")
    case True
    show ?thesis
    proof
      assume "List.find P (y # ys) = Some x"
      with True have "x = y" by simp
      with True have "y # ys = [] @ x # ys \<and> P x \<and> (\<forall>u\<in>set []. \<not> P u)" by simp
      then show "\<exists>pre post. y # ys = pre @ x # post \<and> P x \<and> (\<forall>u\<in>set pre. \<not> P u)" by blast
    next
      assume "\<exists>pre post. y # ys = pre @ x # post \<and> P x \<and> (\<forall>u\<in>set pre. \<not> P u)"
      then obtain pre post where h: "y # ys = pre @ x # post" "\<forall>u\<in>set pre. \<not> P u" by blast
      with True have "pre = []" by (cases pre) auto
      with h True show "List.find P (y # ys) = Some x" by simp
    qed
  next
    case False
    show ?thesis
    proof
      assume "List.find P (y # ys) = Some x"
      with False have "List.find P ys = Some x" by simp
      with Cons.IH obtain pre post where h: "ys = pre @ x # post" "P x" "\<forall>u\<in>set pre. \<not> P u"
        by blast
      with False have "y # ys = (y # pre) @ x # post \<and> P x \<and> (\<forall>u\<in>set (y # pre). \<not> P u)"
        by simp
      then show "\<exists>pre post. y # ys = pre @ x # post \<and> P x \<and> (\<forall>u\<in>set pre. \<not> P u)" by blast
    next
      assume "\<exists>pre post. y # ys = pre @ x # post \<and> P x \<and> (\<forall>u\<in>set pre. \<not> P u)"
      then obtain pre post where h: "y # ys = pre @ x # post" "P x" "\<forall>u\<in>set pre. \<not> P u"
        by blast
      with False obtain pre' where "pre = y # pre'" by (cases pre) auto
      with h have "ys = pre' @ x # post \<and> P x \<and> (\<forall>u\<in>set pre'. \<not> P u)" by simp
      with Cons.IH have "List.find P ys = Some x" by blast
      with False show "List.find P (y # ys) = Some x" by simp
    qed
  qed
qed


lemma slice0_Nil: "slice0 n [] = []"
  by (simp add: slice0_def)

lemma display_name_truthy: "truthy (t_name (tournament ip)) \<Longrightarrow> t_name (tournament ip) = Some (display_name ip tid)"
  by (cases "t_name (tournament ip)") (auto simp: display_name_def or_else_def)

lemma display_name_falsy: "\<not> truthy (t_name (tournament ip)) \<Longrightarrow> display_name ip tid = tid"
  by (cases "t_name (tournament ip)") (auto simp: display_name_def or_else_def)

lemma collect_entries_skip:
  "loadInterpreter st bad = Inl e \<Longrightarrow>
   collect_entries st ty (pre @ bad # post) acc = collect_entries st ty (pre @ post) acc"
proof (induction pre arbitrary: acc)
  case Nil
  then show ?case by (cases acc) simp
next
  case (Cons tid pre)
  then show ?case by (cases acc) (simp split: sum.splits)
qed

lemma collect_entries_filter:
  "collect_entries st ty ids acc =
   collect_entries st ty (filter (\<lambda>tid. \<not> isl (st tid)) ids) acc"
proof (induction ids arbitrary: acc)
  case Nil
  then show ?case by simp
next
  case (Cons tid ids)
  then show ?case
    by (cases acc) (auto simp: loadInterpreter_def split: sum.splits)
qed

lemma collect_entries_without:
  "loadInterpreter st bad = Inl e \<Longrightarrow>
   collect_entries st ty (filter (\<lambda>tid. tid \<noteq> bad) ids) acc = collect_entries st ty ids acc"
proof (induction ids arbitrary: acc)
  case Nil
  then show ?case by simp
next
  case (Cons tid ids)
  then show ?case by (cases acc) (auto split: sum.splits)
qed

lemma yaml_name_split: "endsWith file ''.yaml'' \<Longrightarrow> file = slice0 (- 5) file @ ''.yaml''"
proof -
  assume "endsWith file ''.yaml''"
  then obtain stem where f: "file = stem @ ''.yaml''"
    by (auto simp: endsWith_def Sublist.suffix_def)
  then have "slice0 (- 5) file = stem" by (simp add: slice0_def)
  with f show ?thesis by simp
qed

lemma yaml_stem: "slice0 (- 5) (stem @ ''.yaml'') = stem"
  by (simp add: slice0_def)

lemma getAvailableTournaments_without:
  "getAvailableTournaments (Inr (filter (\<lambda>file. file \<noteq> bad @ ''.yaml'') files)) =
   filter (\<lambda>tid. tid \<noteq> bad) (getAvailableTournaments (Inr files))"
proof -
  have pointwise: "(x \<noteq> bad @ ''.yaml'' \<and> endsWith x ''.yaml'') =
        (endsWith x ''.yaml'' \<and> slice0 (- 5) x \<noteq> bad)" for x
  proof (cases "endsWith x ''.yaml''")
    case True
    from yaml_name_split [OF True] have "x = bad @ ''.yaml'' \<longleftrightarrow> slice0 (- 5) x = bad"
      using yaml_stem [of bad] by auto
    with True show ?thesis by simp
  next
    case False
    then show ?thesis by simp
  qed
  show ?thesis
    by (simp add: getAvailableTournaments_def filter_map filter_sort o_def pointwise)
qed

lemma catalog_results_failed:
  assumes "fetch_failed tf \<or> fetch_failed sf"
  shows "\<exists>e. catalog_results fuse fsf tf sf query ty limit = Inl e"
  using assms
  by (cases tf; cases sf)
     (auto simp: fetch_failed_def catalog_results_def promise_all2_def)

lemma lower_char_idem: "lower_char (lower_char c) = lower_char c"
  by (auto simp: lower_char_def less_eq_char_def)

lemma toLowerCase_idem: "toLowerCase (toLowerCase s) = toLowerCase s"
  by (simp add: toLowerCase_def lower_char_idem)

lemma replace_team_absent: "\<not> str_includes s ''team'' \<Longrightarrow> replace_team b s = s"
proof (induction s arbitrary: b)
  case Nil
  then show ?case by simp
next
  case (Cons c cs)
  from Cons.prems have np: "\<not> prefix ''team'' (c # cs)" and ni: "\<not> str_includes cs ''team''"
    by auto
  from ni Cons.IH have "replace_team (is_word_char c) cs = cs" by blast
  with np show ?case by auto
qed

section \<open>The claims\<close>

subsection \<open>Rankings\<close>




subsection \<open>Title derivation\<close>

text \<open>
  C3. The derived title is the explicit name when the record has one; otherwise the
  fixed national title for Nationals, the state title for States with \<^verbatim>\<open>sCA\<close> and
  \<^verbatim>\<open>nCA\<close> expanded to \<^verbatim>\<open>SoCal\<close> and \<^verbatim>\<open>NorCal\<close> (other state codes are kept), the
  location followed by \<^verbatim>\<open>Regional Tournament\<close> for Regionals and by \<^verbatim>\<open>Invitational\<close>
  for Invitational, and absent for every other level.
\<close>

theorem tournamentTitle_derivation:
  "(truthy (t_name tInfo) \<longrightarrow> tournamentTitle tInfo = t_name tInfo) \<and>
   (\<not> truthy (t_name tInfo) \<longrightarrow>
      (t_level tInfo = ''Nationals'' \<longrightarrow>
         tournamentTitle tInfo = Some ''Science Olympiad National Tournament'') \<and>
      (t_level tInfo = ''States'' \<longrightarrow>
         tournamentTitle tInfo =
           Some (expandStateName (t_state tInfo) @ '' Science Olympiad State Tournament'')) \<and>
      (t_level tInfo = ''Regionals'' \<longrightarrow>
         tournamentTitle tInfo = Some (t_location tInfo @ '' Regional Tournament'')) \<and>
      (t_level tInfo = ''Invitational'' \<longrightarrow>
         tournamentTitle tInfo = Some (t_location tInfo @ '' Invitational'')) \<and>
      (t_level tInfo \<notin> {''Nationals'', ''States'', ''Regionals'', ''Invitational''} \<longrightarrow>
         tournamentTitle tInfo = None)) \<and>
   expandStateName ''sCA'' = ''SoCal'' \<and> expandStateName ''nCA'' = ''NorCal'' \<and>
   (\<not> str_includes (t_state tInfo) ''sCA'' \<and> \<not> str_includes (t_state tInfo) ''nCA'' \<longrightarrow>
      expandStateName (t_state tInfo) = t_state tInfo)"
proof -
  have a: "expandStateName ''sCA'' = ''SoCal''" by (simp add: expandStateName_def)
  have b: "expandStateName ''nCA'' = ''NorCal''" by (simp add: expandStateName_def)
  have c: "\<not> str_includes (t_state tInfo) ''sCA'' \<and> \<not> str_includes (t_state tInfo) ''nCA'' \<longrightarrow>
      expandStateName (t_state tInfo) = t_state tInfo"
    by (simp add: expandStateName_def replace_first_absent)
  have d: "truthy (t_name tInfo) \<longrightarrow> tournamentTitle tInfo = t_name tInfo"
    by (simp add: tournamentTitle_def)
  have e: "\<not> truthy (t_name tInfo) \<longrightarrow>
      (t_level tInfo = ''Nationals'' \<longrightarrow>
         tournamentTitle tInfo = Some ''Science Olympiad National Tournament'') \<and>
      (t_level tInfo = ''States'' \<longrightarrow>
         tournamentTitle tInfo =
           Some (expandStateName (t_state tInfo) @ '' Science Olympiad State Tournament'')) \<and>
      (t_level tInfo = ''Regionals'' \<longrightarrow>
         tournamentTitle tInfo = Some (t_location tInfo @ '' Regional Tournament'')) \<and>
      (t_level tInfo = ''Invitational'' \<longrightarrow>
         tournamentTitle tInfo = Some (t_location tInfo @ '' Invitational'')) \<and>
      (t_level tInfo \<notin> {''Nationals'', ''States'', ''Regionals'', ''Invitational''} \<longrightarrow>
         tournamentTitle tInfo = None)"
    by (simp add: tournamentTitle_def)
  from a b c d e show ?thesis by blast
qed

theorem tournamentTitle_derivation_witness:
  "truthy (t_name (tournament demo_ip)) \<and>
   tournamentTitle (tournament demo_ip) = Some ''Demo Invitational 2024'' \<and>
   \<not> truthy (t_name (tournament nats_ip)) \<and> t_level (tournament nats_ip) = ''Nationals'' \<and>
   tournamentTitle (tournament nats_ip) = Some ''Science Olympiad National Tournament'' \<and>
   \<not> truthy (t_name states_info) \<and> t_level states_info = ''States'' \<and>
   tournamentTitle states_info = Some ''SoCal Science Olympiad State Tournament'' \<and>
   tournamentTitle (states_info \<lparr> t_level := ''Regionals'' \<rparr>) = Some ''Caltech Regional Tournament'' \<and>
   tournamentTitle (states_info \<lparr> t_level := ''Invitational'' \<rparr>) = Some ''Caltech Invitational'' \<and>
   tournamentTitle (states_info \<lparr> t_level := ''Worlds'' \<rparr>) = None \<and>
   \<not> str_includes (t_state (tournament nats_ip)) ''sCA'' \<and>
   \<not> str_includes (t_state (tournament nats_ip)) ''nCA'' \<and>
   expandStateName (t_state (tournament nats_ip)) = ''MI''"
  using tournamentTitle_derivation [of "tournament demo_ip"]
    tournamentTitle_derivation [of "tournament nats_ip"]
    tournamentTitle_derivation [of states_info]
    tournamentTitle_derivation [of "states_info \<lparr> t_level := ''Regionals'' \<rparr>"]
    tournamentTitle_derivation [of "states_info \<lparr> t_level := ''Invitational'' \<rparr>"]
    tournamentTitle_derivation [of "states_info \<lparr> t_level := ''Worlds'' \<rparr>"]
  by (simp add: demo_ip_def nats_ip_def states_info_def)

subsection \<open>Team resolution\<close>

text \<open>
  C4. \<^verbatim>\<open>findTeam\<close> returns the first team of the interpreter's list that matches, and
  nothing when no team matches; a team matches when its number printed in decimal is the
  argument, or when its school name, case-folded, contains the case-folded argument.
\<close>

theorem findTeam_first_match:
  "(findTeam ip teamId = None \<longleftrightarrow> (\<forall>t\<in>set (teams ip). \<not> team_matches teamId t)) \<and>
   (findTeam ip teamId = Some t \<longleftrightarrow>
      (\<exists>pre post. teams ip = pre @ t # post \<and> team_matches teamId t \<and>
                  (\<forall>u\<in>set pre. \<not> team_matches teamId u))) \<and>
   (team_matches teamId u \<longleftrightarrow>
      toString (number u) = teamId \<or>
      (\<exists>s a b. school u = Some s \<and> toLowerCase s = a @ toLowerCase teamId @ b))"
proof -
  have a: "findTeam ip teamId = None \<longleftrightarrow> (\<forall>t\<in>set (teams ip). \<not> team_matches teamId t)"
    by (auto simp: findTeam_def find_None_iff)
  have b: "findTeam ip teamId = Some t \<longleftrightarrow>
      (\<exists>pre post. teams ip = pre @ t # post \<and> team_matches teamId t \<and>
                  (\<forall>u\<in>set pre. \<not> team_matches teamId u))"
    unfolding findTeam_def by (rule find_first_iff)
  have c: "team_matches teamId u \<longleftrightarrow>
      toString (number u) = teamId \<or>
      (\<exists>s a b. school u = Some s \<and> toLowerCase s = a @ toLowerCase teamId @ b)"
    by (cases "school u") (auto simp: team_matches_def str_includes_iff)
  from a b c show ?thesis by blast
qed

theorem findTeam_first_match_witness:
  "teams demo_ip = [] @ (demo_teams ! 0) # [demo_teams ! 1, demo_teams ! 2] \<and>
   team_matches ''lincoln'' (demo_teams ! 0) \<and> team_matches ''lincoln'' (demo_teams ! 1) \<and>
   findTeam demo_ip ''lincoln'' = Some (demo_teams ! 0) \<and>
   teams demo_ip = [demo_teams ! 0, demo_teams ! 1] @ (demo_teams ! 2) # [] \<and>
   toString (number (demo_teams ! 2)) = ''12'' \<and>
   findTeam demo_ip ''12'' = Some (demo_teams ! 2) \<and>
   findTeam demo_ip ''99'' = None"
proof -
  let ?t0 = "demo_teams ! 0" and ?t1 = "demo_teams ! 1" and ?t2 = "demo_teams ! 2"
  have split0: "teams demo_ip = [] @ ?t0 # [?t1, ?t2]"
    by (simp add: demo_ip_def demo_teams_def)
  have split2: "teams demo_ip = [?t0, ?t1] @ ?t2 # []"
    by (simp add: demo_ip_def demo_teams_def)
  have m0: "team_matches ''lincoln'' ?t0" by code_simp
  have m1: "team_matches ''lincoln'' ?t1" by code_simp
  have m2: "team_matches ''12'' ?t2" by code_simp
  have n2: "toString (number ?t2) = ''12''" by code_simp
  have n0: "\<forall>u\<in>set [?t0, ?t1]. \<not> team_matches ''12'' u" by code_simp
  have none: "\<forall>t\<in>set (teams demo_ip). \<not> team_matches ''99'' t" by code_simp
  have f0: "findTeam demo_ip ''lincoln'' = Some ?t0"
    using findTeam_first_match [of demo_ip "''lincoln''" ?t0] split0 m0 by fastforce
  have f2: "findTeam demo_ip ''12'' = Some ?t2"
    using findTeam_first_match [of demo_ip "''12''" ?t2] split2 m2 n0 by blast
  have f9: "findTeam demo_ip ''99'' = None"
    using findTeam_first_match [of demo_ip "''99''"] none by blast
  from split0 split2 m0 m1 n2 f0 f2 f9 show ?thesis by blast
qed

subsection \<open>Not-found answers of get\_team\_placement\<close>

text \<open>
  C5. When the record file does not exist (\<^verbatim>\<open>ENOENT\<close>), and when the tournament loads
  but the team argument resolves to no team, \<^verbatim>\<open>get_team_placement\<close> returns a text
  answer saying what was not found, not a protocol error.
\<close>

theorem get_team_placement_not_found:
  "(st tournamentId = Inl e \<and> err_code e = Some ''ENOENT'' \<longrightarrow>
      get_team_placement st tournamentId teamId ev =
        Inr (''Tournament '' @ dq @ tournamentId @ dq @ '' not found'')) \<and>
   (st tournamentId = Inr (d, ip) \<and> findTeam ip teamId = None \<longrightarrow>
      get_team_placement st tournamentId teamId ev =
        Inr (''Team '' @ dq @ teamId @ dq @ '' not found in tournament '' @ dq @ tournamentId @ dq))"
  by (simp add: get_team_placement_def loadInterpreter_def on_error_def team_not_found_def)

theorem get_team_placement_not_found_witness:
  "demo_store ''missing'' = Inl enoent \<and> err_code enoent = Some ''ENOENT'' \<and>
   get_team_placement demo_store ''missing'' ''42'' (Some ''Write It Do It'') =
     Inr (''Tournament '' @ dq @ ''missing'' @ dq @ '' not found'') \<and>
   demo_store ''demo-2024'' = Inr ((), demo_ip) \<and> findTeam demo_ip ''42'' = None \<and>
   get_team_placement demo_store ''demo-2024'' ''42'' (Some ''Write It Do It'') =
     Inr (''Team '' @ dq @ ''42'' @ dq @ '' not found in tournament '' @ dq @ ''demo-2024'' @ dq)"
proof -
  have a: "demo_store ''missing'' = Inl enoent" by (simp add: demo_store_def)
  have b: "err_code enoent = Some ''ENOENT''" by (simp add: enoent_def)
  have c: "demo_store ''demo-2024'' = Inr ((), demo_ip)" by (simp add: demo_store_def)
  have d: "findTeam demo_ip ''42'' = None" by code_simp
  from a b c d
    get_team_placement_not_found [where st = demo_store and tournamentId = "''missing''" and e = enoent
      and teamId = "''42''" and ev = "Some ''Write It Do It''"]
    get_team_placement_not_found [where st = demo_store and tournamentId = "''demo-2024''" and d = "()"
      and ip = demo_ip and teamId = "''42''" and ev = "Some ''Write It Do It''"]
  show ?thesis by blast
qed

subsection \<open>The title in fetch and in get\_tournament\_info\<close>

text \<open>
  C2, as stated: for every tournament that loads, the title in the output of
  \<^verbatim>\<open>fetch\<close> agrees with the title that \<^verbatim>\<open>get_tournament_info\<close> reports. It fails
  for a record without a name: \<^verbatim>\<open>fetch\<close> derives a title from the level,
  \<^verbatim>\<open>get_tournament_info\<close> falls back to the tournament id.
\<close>

theorem fetch_info_title_counterexample:
  "fetch_tool demo_store ''nats-2024'' =
     Inr (Json \<lparr> f_id = ''nats-2024'', f_title = Some ''Science Olympiad National Tournament'',
                 f_text = (), f_url = ''https://www.duosmium.org/results/nats-2024'' \<rparr>) \<and>
   get_tournament_info demo_store ''nats-2024'' =
     Inr (''Tournament: nats-2024'' @ nl @ nl @ ''Teams (0):'' @ nl @ nl @ nl @ ''Events (0):'' @ nl)"
  by code_simp

text \<open>
  C2, amended: for a tournament that loads, \<^verbatim>\<open>fetch\<close> carries the title computed by
  \<^verbatim>\<open>tournamentTitle\<close> and \<^verbatim>\<open>get_tournament_info\<close> prints the name or else the id;
  the two are the same title when the record has an explicit (non-empty) name, and without
  one \<^verbatim>\<open>get_tournament_info\<close> prints the tournament id.
\<close>

theorem fetch_info_title_agree_on_name:
  assumes loaded: "st ident = Inr (d, ip)"
  shows "fetch_tool st ident =
           Inr (Json \<lparr> f_id = ident, f_title = tournamentTitle (tournament ip), f_text = d,
                       f_url = ''https://www.duosmium.org/results/'' @ ident \<rparr>) \<and>
         get_tournament_info st ident =
           Inr (''Tournament: '' @ display_name ip ident @ nl @ nl @
                ''Teams ('' @ toString (int (length (teams ip))) @ ''):'' @ nl @
                join nl (map team_label (teams ip)) @ nl @ nl @
                ''Events ('' @ toString (int (length (events ip))) @ ''):'' @ nl @
                join nl (map e_name (events ip))) \<and>
         (truthy (t_name (tournament ip)) \<longrightarrow>
            tournamentTitle (tournament ip) = Some (display_name ip ident)) \<and>
         (\<not> truthy (t_name (tournament ip)) \<longrightarrow> display_name ip ident = ident)"
proof -
  have a: "fetch_tool st ident =
           Inr (Json \<lparr> f_id = ident, f_title = tournamentTitle (tournament ip), f_text = d,
                       f_url = ''https://www.duosmium.org/results/'' @ ident \<rparr>)"
    using loaded by (simp add: fetch_tool_def)
  have b: "get_tournament_info st ident =
           Inr (''Tournament: '' @ display_name ip ident @ nl @ nl @
                ''Teams ('' @ toString (int (length (teams ip))) @ ''):'' @ nl @
                join nl (map team_label (teams ip)) @ nl @ nl @
                ''Events ('' @ toString (int (length (events ip))) @ ''):'' @ nl @
                join nl (map e_name (events ip)))"
    using loaded by (simp add: get_tournament_info_def loadInterpreter_def info_text_def)
  have c: "truthy (t_name (tournament ip)) \<longrightarrow>
            tournamentTitle (tournament ip) = Some (display_name ip ident)"
    using display_name_truthy [of ip ident] by (simp add: tournamentTitle_def)
  have e: "\<not> truthy (t_name (tournament ip)) \<longrightarrow> display_name ip ident = ident"
    by (simp add: display_name_falsy)
  from a b c e show ?thesis by blast
qed

theorem fetch_info_title_agree_on_name_witness:
  "demo_store ''demo-2024'' = Inr ((), demo_ip) \<and> truthy (t_name (tournament demo_ip)) \<and>
   tournamentTitle (tournament demo_ip) = Some ''Demo Invitational 2024'' \<and>
   display_name demo_ip ''demo-2024'' = ''Demo Invitational 2024'' \<and>
   demo_store ''nats-2024'' = Inr ((), nats_ip) \<and> \<not> truthy (t_name (tournament nats_ip)) \<and>
   display_name nats_ip ''nats-2024'' = ''nats-2024''"
proof -
  have a: "demo_store ''demo-2024'' = Inr ((), demo_ip)" by (simp add: demo_store_def)
  have b: "truthy (t_name (tournament demo_ip))" by (simp add: demo_ip_def)
  have c: "display_name demo_ip ''demo-2024'' = ''Demo Invitational 2024''" by code_simp
  have a': "demo_store ''nats-2024'' = Inr ((), nats_ip)" by (simp add: demo_store_def)
  have b': "\<not> truthy (t_name (tournament nats_ip))" by (simp add: nats_ip_def)
  note r = fetch_info_title_agree_on_name [where st = demo_store and ident = "''demo-2024''"
      and d = "()" and ip = demo_ip, OF a]
  note r' = fetch_info_title_agree_on_name [where st = demo_store and ident = "''nats-2024''"
      and d = "()" and ip = nats_ip, OF a']
  from r b have t: "tournamentTitle (tournament demo_ip) = Some (display_name demo_ip ''demo-2024'')"
    by blast
  from t c have t': "tournamentTitle (tournament demo_ip) = Some ''Demo Invitational 2024''"
    by (simp only:)
  from r' b' have n: "display_name nats_ip ''nats-2024'' = ''nats-2024''" by blast
  from a b t' c a' b' n show ?thesis by blast
qed

subsection \<open>All placements of a team\<close>

text \<open>
  C6, as stated: the placements returned by \<^verbatim>\<open>get_team_all_placements\<close> are ordered
  by event name. The handler does not sort: for the demo tournament, whose placings list
  \<^verbatim>\<open>Write It Do It\<close> before \<^verbatim>\<open>Anatomy\<close>, so does the answer.
\<close>

theorem all_placements_order_counterexample:
  "get_team_all_placements demo_store ''demo-2024'' ''7'' =
     Inr (''Team: Lincoln High School (#7)'' @ nl @ ''Overall Rank: 1'' @ nl @
          ''Total Points: 40'' @ nl @ ''Tournament: Demo Invitational 2024'' @ nl @ nl @
          ''Event Placements (2):'' @ nl @
          ''Write It Do It: 2 (2 points)'' @ nl @ ''Anatomy: 5 (5 points) [DROPPED]'') \<and>
   map p_event_name (teamPlacements demo_ip (demo_teams ! 0)) = [''Write It Do It'', ''Anatomy''] \<and>
   \<not> sorted (map p_event_name (teamPlacements demo_ip (demo_teams ! 0)))"
  by code_simp

text \<open>
  C6, amended: for a tournament that loads and a team that resolves,
  \<^verbatim>\<open>get_team_all_placements\<close> lists exactly the placings of the interpreter whose
  team number is the team's, whether dropped or not, one line each, in the order in which
  the interpreter lists them (so by event name when the interpreter's list is so ordered).
\<close>

theorem all_placements_interpreter_order:
  assumes loaded: "st tournamentId = Inr (d, ip)"
    and found: "findTeam ip teamId = Some t"
  shows "teamPlacements ip t = filter (\<lambda>p. p_team_number p = number t) (placings ip) \<and>
         (teamPlacements ip t \<noteq> [] \<longrightarrow>
            (\<exists>header. get_team_all_placements st tournamentId teamId =
               Inr (header @ join nl (map placement_detail (teamPlacements ip t))))) \<and>
         set (teamPlacements ip t) = {p \<in> set (placings ip). p_team_number p = number t} \<and>
         (sorted (map p_event_name (placings ip)) \<longrightarrow>
            sorted (map p_event_name (teamPlacements ip t)))"
proof -
  have a: "teamPlacements ip t = filter (\<lambda>p. p_team_number p = number t) (placings ip)"
    by (simp add: teamPlacements_def)
  have b: "teamPlacements ip t \<noteq> [] \<longrightarrow>
            (\<exists>header. get_team_all_placements st tournamentId teamId =
               Inr (header @ join nl (map placement_detail (teamPlacements ip t))))"
  proof
    assume ne: "teamPlacements ip t \<noteq> []"
    have "get_team_all_placements st tournamentId teamId = Inr (all_placements_text ip tournamentId t)"
      using loaded found ne by (simp add: get_team_all_placements_def loadInterpreter_def)
    moreover have "\<exists>header. all_placements_text ip tournamentId t =
        header @ join nl (map placement_detail (teamPlacements ip t))"
      unfolding all_placements_text_def Let_def
      by (metis append.assoc)
    ultimately show "\<exists>header. get_team_all_placements st tournamentId teamId =
               Inr (header @ join nl (map placement_detail (teamPlacements ip t)))"
      by auto
  qed
  have c: "set (teamPlacements ip t) = {p \<in> set (placings ip). p_team_number p = number t}"
    by (auto simp: teamPlacements_def)
  have e: "sorted (map p_event_name (placings ip)) \<longrightarrow>
            sorted (map p_event_name (teamPlacements ip t))"
    by (simp add: teamPlacements_def sorted_map sorted_wrt_filter)
  from a b c e show ?thesis by blast
qed

theorem all_placements_interpreter_order_witness:
  "demo_store ''demo-2024'' = Inr ((), demo_ip) \<and>
   findTeam demo_ip ''7'' = Some (demo_teams ! 0) \<and>
   teamPlacements demo_ip (demo_teams ! 0) \<noteq> [] \<and>
   (\<exists>header. get_team_all_placements demo_store ''demo-2024'' ''7'' =
      Inr (header @ join nl (map placement_detail (teamPlacements demo_ip (demo_teams ! 0))))) \<and>
   mk_placing 7 ''Anatomy'' 5 True \<in> set (teamPlacements demo_ip (demo_teams ! 0)) \<and>
   (\<lambda>tid. Inr ((), sorted_ip)) ''demo-2024'' = Inr ((), sorted_ip) \<and>
   findTeam sorted_ip ''7'' = Some (demo_teams ! 0) \<and>
   sorted (map p_event_name (placings sorted_ip)) \<and>
   sorted (map p_event_name (teamPlacements sorted_ip (demo_teams ! 0)))"
proof -
  let ?t = "demo_teams ! 0" and ?p = "mk_placing 7 ''Anatomy'' 5 True"
  have a: "demo_store ''demo-2024'' = Inr ((), demo_ip)" by (simp add: demo_store_def)
  have b: "findTeam demo_ip ''7'' = Some ?t" by code_simp
  have c: "teamPlacements demo_ip ?t \<noteq> []" by code_simp
  have m0: "?p \<in> set (placings demo_ip) \<and> p_team_number ?p = number ?t" by code_simp
  have a': "(\<lambda>tid. Inr ((), sorted_ip)) ''demo-2024'' = Inr ((), sorted_ip)" by simp
  have b': "findTeam sorted_ip ''7'' = Some ?t" by code_simp
  have s: "sorted (map p_event_name (placings sorted_ip))" by code_simp
  note r = all_placements_interpreter_order [where st = demo_store and tournamentId = "''demo-2024''"
      and d = "()" and ip = demo_ip and teamId = "''7''" and t = ?t, OF a b]
  note r' = all_placements_interpreter_order [where st = "\<lambda>tid. Inr ((), sorted_ip)"
      and tournamentId = "''demo-2024''" and d = "()" and ip = sorted_ip and teamId = "''7''"
      and t = ?t, OF a' b']
  from r c have h: "\<exists>header. get_team_all_placements demo_store ''demo-2024'' ''7'' =
      Inr (header @ join nl (map placement_detail (teamPlacements demo_ip ?t)))"
    by blast
  from r m0 have m: "?p \<in> set (teamPlacements demo_ip ?t)" by blast
  from r' s have s': "sorted (map p_event_name (teamPlacements sorted_ip ?t))" by blast
  from a b c h m a' b' s s' show ?thesis by blast
qed

subsection \<open>Corpus search skips records that fail to load\<close>

text \<open>
  C7. In the corpus search, a tournament id whose record fails to load or to be
  interpreted contributes nothing and the loop goes on with the remaining ids: the
  answer of the handler is the text for the results over the ids that load, the same as
  with the failing id left out of the listing and as with its file absent from the
  directory; it is always an answer, never the error of a record.
\<close>

theorem corpus_search_skips_failed_records:
  assumes bad: "st bad = Inl e"
  shows "collect_entries st ty (pre @ bad # post) acc = collect_entries st ty (pre @ post) acc \<and>
         corpus_results fuse st (pre @ bad # post) query ty limit =
           corpus_results fuse st (pre @ post) query ty limit \<and>
         corpus_results fuse st ids query ty limit =
           corpus_results fuse st (filter (\<lambda>tid. \<not> isl (st tid)) ids) query ty limit \<and>
         search_corpus fuse rd st query ty_arg limit_arg =
           Inr (corpus_text query (case ty_arg of None \<Rightarrow> ''both'' | Some t \<Rightarrow> t)
                  (corpus_results fuse st
                     (filter (\<lambda>tid. \<not> isl (st tid)) (getAvailableTournaments rd)) query
                     (case ty_arg of None \<Rightarrow> ''both'' | Some t \<Rightarrow> t)
                     (case limit_arg of None \<Rightarrow> 10 | Some l \<Rightarrow> l))) \<and>
         (getAvailableTournaments rd = pre @ bad # post \<longrightarrow>
            search_corpus fuse rd st query ty_arg limit_arg =
              Inr (corpus_text query (case ty_arg of None \<Rightarrow> ''both'' | Some t \<Rightarrow> t)
                     (corpus_results fuse st (pre @ post) query
                        (case ty_arg of None \<Rightarrow> ''both'' | Some t \<Rightarrow> t)
                        (case limit_arg of None \<Rightarrow> 10 | Some l \<Rightarrow> l)))) \<and>
         search_corpus fuse (Inr files) st query ty_arg limit_arg =
           search_corpus fuse (Inr (filter (\<lambda>file. file \<noteq> bad @ ''.yaml'') files)) st query
             ty_arg limit_arg"
proof -
  have l: "loadInterpreter st bad = Inl e"
    using bad by (simp add: loadInterpreter_def)
  have a: "collect_entries st ty' (pre @ bad # post) acc' = collect_entries st ty' (pre @ post) acc'"
    for acc' ty'
    using l by (rule collect_entries_skip)
  have b: "corpus_results fuse st (pre @ bad # post) query ty' limit' =
           corpus_results fuse st (pre @ post) query ty' limit'" for ty' limit'
    by (simp add: corpus_results_def a)
  have f: "corpus_results fuse st ids' query ty' limit' =
           corpus_results fuse st (filter (\<lambda>tid. \<not> isl (st tid)) ids') query ty' limit'"
    for ids' ty' limit'
    unfolding corpus_results_def
    by (subst collect_entries_filter) (rule refl)
  have g: "corpus_results fuse st (filter (\<lambda>tid. tid \<noteq> bad) ids') query ty' limit' =
           corpus_results fuse st ids' query ty' limit'" for ids' ty' limit'
    by (simp add: corpus_results_def collect_entries_without [OF l])
  have h: "search_corpus fuse rd st query ty_arg limit_arg =
           Inr (corpus_text query (case ty_arg of None \<Rightarrow> ''both'' | Some t \<Rightarrow> t)
                  (corpus_results fuse st
                     (filter (\<lambda>tid. \<not> isl (st tid)) (getAvailableTournaments rd)) query
                     (case ty_arg of None \<Rightarrow> ''both'' | Some t \<Rightarrow> t)
                     (case limit_arg of None \<Rightarrow> 10 | Some l \<Rightarrow> l)))"
    unfolding search_corpus_def Let_def
    by (subst f) (rule refl)
  have i: "getAvailableTournaments rd = pre @ bad # post \<longrightarrow>
            search_corpus fuse rd st query ty_arg limit_arg =
              Inr (corpus_text query (case ty_arg of None \<Rightarrow> ''both'' | Some t \<Rightarrow> t)
                     (corpus_results fuse st (pre @ post) query
                        (case ty_arg of None \<Rightarrow> ''both'' | Some t \<Rightarrow> t)
                        (case limit_arg of None \<Rightarrow> 10 | Some l \<Rightarrow> l)))"
    by (simp add: search_corpus_def Let_def b)
  have j: "search_corpus fuse (Inr files) st query ty_arg limit_arg =
           search_corpus fuse (Inr (filter (\<lambda>file. file \<noteq> bad @ ''.yaml'') files)) st query
             ty_arg limit_arg"
    by (simp add: search_corpus_def Let_def getAvailableTournaments_without g)
  from a b f h i j show ?thesis by blast
qed

theorem corpus_search_skips_failed_records_witness:
  "demo_store ''broken'' = Inl bad_yaml \<and>
   getAvailableTournaments (Inr [''nats-2024.yaml'', ''broken.yaml'', ''demo-2024.yaml'']) =
     [] @ ''broken'' # [''demo-2024'', ''nats-2024''] \<and>
   search_corpus (substring_matcher corpus_keys)
       (Inr [''nats-2024.yaml'', ''broken.yaml'', ''demo-2024.yaml'']) demo_store ''2024''
       (Some ''tournament'') None =
     Inr (''Search results for '' @ dq @ ''2024'' @ dq @ '' (2 found):'' @ nl @ nl @
          ''TOURNAMENT: demo-2024'' @ nl @ nl @ ''TOURNAMENT: nats-2024'') \<and>
   search_corpus (substring_matcher corpus_keys)
       (Inr [''nats-2024.yaml'', ''broken.yaml'', ''demo-2024.yaml'']) demo_store ''2024''
       (Some ''tournament'') None =
     search_corpus (substring_matcher corpus_keys)
       (Inr (filter (\<lambda>file. file \<noteq> ''broken'' @ ''.yaml'')
               [''nats-2024.yaml'', ''broken.yaml'', ''demo-2024.yaml''])) demo_store ''2024''
       (Some ''tournament'') None"
proof -
  let ?rd = "Inr [''nats-2024.yaml'', ''broken.yaml'', ''demo-2024.yaml''] :: js_error + string list"
  have a: "demo_store ''broken'' = Inl bad_yaml" by (simp add: demo_store_def)
  have ids: "getAvailableTournaments ?rd = [] @ ''broken'' # [''demo-2024'', ''nats-2024'']"
    by code_simp
  have ev: "corpus_text ''2024'' ''tournament''
              (corpus_results (substring_matcher corpus_keys) demo_store
                 ([] @ [''demo-2024'', ''nats-2024'']) ''2024'' ''tournament'' 10) =
            ''Search results for '' @ dq @ ''2024'' @ dq @ '' (2 found):'' @ nl @ nl @
            ''TOURNAMENT: demo-2024'' @ nl @ nl @ ''TOURNAMENT: nats-2024''"
    by code_simp
  note r = corpus_search_skips_failed_records [where st = demo_store and bad = "''broken''"
      and e = bad_yaml and pre = "[]" and post = "[''demo-2024'', ''nats-2024'']"
      and fuse = "substring_matcher corpus_keys" and query = "''2024''"
      and ty_arg = "Some ''tournament''" and limit_arg = None and rd = ?rd
      and files = "[''nats-2024.yaml'', ''broken.yaml'', ''demo-2024.yaml'']", OF a]
  from r ids have "search_corpus (substring_matcher corpus_keys) ?rd demo_store ''2024''
       (Some ''tournament'') None =
     Inr (corpus_text ''2024'' (case Some ''tournament'' of None \<Rightarrow> ''both'' | Some t \<Rightarrow> t)
            (corpus_results (substring_matcher corpus_keys) demo_store
               ([] @ [''demo-2024'', ''nats-2024'']) ''2024''
               (case Some ''tournament'' of None \<Rightarrow> ''both'' | Some t \<Rightarrow> t)
               (case None of None \<Rightarrow> 10 | Some l \<Rightarrow> l)))"
    by blast
  then have "search_corpus (substring_matcher corpus_keys) ?rd demo_store ''2024''
       (Some ''tournament'') None =
     Inr (corpus_text ''2024'' ''tournament''
            (corpus_results (substring_matcher corpus_keys) demo_store
               ([] @ [''demo-2024'', ''nats-2024'']) ''2024'' ''tournament'' 10))"
    by (simp only: option.case)
  with ev have x: "search_corpus (substring_matcher corpus_keys) ?rd demo_store ''2024''
       (Some ''tournament'') None =
     Inr (''Search results for '' @ dq @ ''2024'' @ dq @ '' (2 found):'' @ nl @ nl @
          ''TOURNAMENT: demo-2024'' @ nl @ nl @ ''TOURNAMENT: nats-2024'')"
    by (simp only:)
  from r have y: "search_corpus (substring_matcher corpus_keys) ?rd demo_store ''2024''
       (Some ''tournament'') None =
     search_corpus (substring_matcher corpus_keys)
       (Inr (filter (\<lambda>file. file \<noteq> ''broken'' @ ''.yaml'')
               [''nats-2024.yaml'', ''broken.yaml'', ''demo-2024.yaml''])) demo_store ''2024''
       (Some ''tournament'') None"
    by blast
  from a ids x y show ?thesis by blast
qed

subsection \<open>Catalog search reports fetch failures\<close>

text \<open>
  C8. In the catalog search, when the tournament list or the school directory is
  unreachable or answers with a response that is not \<^verbatim>\<open>ok\<close>, the call ends in an
  \<^verbatim>\<open>McpError\<close> whose message starts with \<^verbatim>\<open>Search failed:\<close> and names the failure; it
  does not return a result text.
\<close>

theorem catalog_search_reports_fetch_error:
  "(fetch_failed tournamentsFetch \<or> fetch_failed schoolsFetch \<longrightarrow>
      (\<exists>msg. search_catalog fuse fsf tournamentsFetch schoolsFetch query ty_arg limit_arg =
               Inl (McpError InternalError (''Search failed: '' @ msg)))) \<and>
   (tournamentsFetch = Inl e \<and> schoolsFetch = Inr r2 \<longrightarrow>
      search_catalog fuse fsf tournamentsFetch schoolsFetch query ty_arg limit_arg =
        Inl (McpError InternalError (''Search failed: '' @ err_message e))) \<and>
   (tournamentsFetch = Inr r1 \<and> schoolsFetch = Inl e \<longrightarrow>
      search_catalog fuse fsf tournamentsFetch schoolsFetch query ty_arg limit_arg =
        Inl (McpError InternalError (''Search failed: '' @ err_message e))) \<and>
   (tournamentsFetch = Inr r1 \<and> schoolsFetch = Inr r2 \<and> \<not> ok r1 \<longrightarrow>
      search_catalog fuse fsf tournamentsFetch schoolsFetch query ty_arg limit_arg =
        Inl (McpError InternalError
               (''Search failed: Failed to fetch tournaments: '' @ toString (status r1)))) \<and>
   (tournamentsFetch = Inr r1 \<and> schoolsFetch = Inr r2 \<and> ok r1 \<and> \<not> ok r2 \<longrightarrow>
      search_catalog fuse fsf tournamentsFetch schoolsFetch query ty_arg limit_arg =
        Inl (McpError InternalError
               (''Search failed: Failed to fetch schools: '' @ toString (status r2))))"
proof -
  have a: "fetch_failed tournamentsFetch \<or> fetch_failed schoolsFetch \<longrightarrow>
      (\<exists>msg. search_catalog fuse fsf tournamentsFetch schoolsFetch query ty_arg limit_arg =
               Inl (McpError InternalError (''Search failed: '' @ msg)))"
  proof
    assume f: "fetch_failed tournamentsFetch \<or> fetch_failed schoolsFetch"
    let ?ty = "case ty_arg of None \<Rightarrow> ''all'' | Some t \<Rightarrow> t"
    let ?limit = "case limit_arg of None \<Rightarrow> 20 | Some l \<Rightarrow> l"
    from catalog_results_failed [OF f] obtain err where
      "catalog_results fuse fsf tournamentsFetch schoolsFetch query ?ty ?limit = Inl err"
      by blast
    then have "search_catalog fuse fsf tournamentsFetch schoolsFetch query ty_arg limit_arg =
               Inl (McpError InternalError (''Search failed: '' @ err_message err))"
      by (simp add: search_catalog_def)
    then show "\<exists>msg. search_catalog fuse fsf tournamentsFetch schoolsFetch query ty_arg limit_arg =
               Inl (McpError InternalError (''Search failed: '' @ msg))"
      by blast
  qed
  have b: "tournamentsFetch = Inl e \<and> schoolsFetch = Inr r2 \<longrightarrow>
      search_catalog fuse fsf tournamentsFetch schoolsFetch query ty_arg limit_arg =
        Inl (McpError InternalError (''Search failed: '' @ err_message e))"
    by (simp add: search_catalog_def catalog_results_def promise_all2_def)
  have c: "tournamentsFetch = Inr r1 \<and> schoolsFetch = Inl e \<longrightarrow>
      search_catalog fuse fsf tournamentsFetch schoolsFetch query ty_arg limit_arg =
        Inl (McpError InternalError (''Search failed: '' @ err_message e))"
    by (simp add: search_catalog_def catalog_results_def promise_all2_def)
  have d: "tournamentsFetch = Inr r1 \<and> schoolsFetch = Inr r2 \<and> \<not> ok r1 \<longrightarrow>
      search_catalog fuse fsf tournamentsFetch schoolsFetch query ty_arg limit_arg =
        Inl (McpError InternalError
               (''Search failed: Failed to fetch tournaments: '' @ toString (status r1)))"
    by (simp add: search_catalog_def catalog_results_def promise_all2_def)
  have f: "tournamentsFetch = Inr r1 \<and> schoolsFetch = Inr r2 \<and> ok r1 \<and> \<not> ok r2 \<longrightarrow>
      search_catalog fuse fsf tournamentsFetch schoolsFetch query ty_arg limit_arg =
        Inl (McpError InternalError
               (''Search failed: Failed to fetch schools: '' @ toString (status r2)))"
    by (simp add: search_catalog_def catalog_results_def promise_all2_def)
  from a b c d f show ?thesis by blast
qed

theorem catalog_search_reports_fetch_error_witness:
  "fetch_failed (Inl unreachable :: js_error + (tmeta list) response) \<and>
   search_catalog (substring_matcher catalog_keys) True (Inl unreachable) (Inr catalog_schools)
       ''lincoln'' None None =
     Inl (McpError InternalError ''Search failed: fetch failed'') \<and>
   fetch_failed (Inr not_found_response) \<and> ok catalog_tournaments \<and> \<not> ok not_found_response \<and>
   search_catalog (substring_matcher catalog_keys) True (Inr catalog_tournaments)
       (Inr not_found_response) ''lincoln'' None None =
     Inl (McpError InternalError ''Search failed: Failed to fetch schools: 404'')"
proof -
  have a: "fetch_failed (Inl unreachable :: js_error + (tmeta list) response)"
    by (simp add: fetch_failed_def)
  have b: "fetch_failed (Inr not_found_response)"
    by (simp add: fetch_failed_def not_found_response_def)
  have c: "ok catalog_tournaments" by (simp add: catalog_tournaments_def)
  have d: "\<not> ok not_found_response" by (simp add: not_found_response_def)
  have m: "''Search failed: '' @ err_message unreachable = ''Search failed: fetch failed''"
    by (simp add: unreachable_def)
  have n: "''Search failed: Failed to fetch schools: '' @ toString (status not_found_response) =
           ''Search failed: Failed to fetch schools: 404''"
    by code_simp
  note r = catalog_search_reports_fetch_error [where tournamentsFetch = "Inl unreachable"
      and schoolsFetch = "Inr catalog_schools" and e = unreachable and ?r2.0 = catalog_schools
      and fuse = "substring_matcher catalog_keys" and fsf = True and query = "''lincoln''"
      and ty_arg = None and limit_arg = None]
  note r' = catalog_search_reports_fetch_error [where tournamentsFetch = "Inr catalog_tournaments"
      and schoolsFetch = "Inr not_found_response" and ?r1.0 = catalog_tournaments
      and ?r2.0 = not_found_response
      and fuse = "substring_matcher catalog_keys" and fsf = True and query = "''lincoln''"
      and ty_arg = None and limit_arg = None]
  from r have "search_catalog (substring_matcher catalog_keys) True (Inl unreachable)
       (Inr catalog_schools) ''lincoln'' None None =
     Inl (McpError InternalError (''Search failed: '' @ err_message unreachable))"
    by blast
  with m have x: "search_catalog (substring_matcher catalog_keys) True (Inl unreachable)
       (Inr catalog_schools) ''lincoln'' None None =
     Inl (McpError InternalError ''Search failed: fetch failed'')"
    by (simp only:)
  from r' c d have "search_catalog (substring_matcher catalog_keys) True (Inr catalog_tournaments)
       (Inr not_found_response) ''lincoln'' None None =
     Inl (McpError InternalError
            (''Search failed: Failed to fetch schools: '' @ toString (status not_found_response)))"
    by blast
  with n have y: "search_catalog (substring_matcher catalog_keys) True (Inr catalog_tournaments)
       (Inr not_found_response) ''lincoln'' None None =
     Inl (McpError InternalError ''Search failed: Failed to fetch schools: 404'')"
    by (simp only:)
  from a b c d x y show ?thesis by blast
qed

subsection \<open>Query normalisation\<close>

text \<open>
  C9, as stated: every search normalises the query, so that two queries that are equal
  after case-folding and replacing the word \<^verbatim>\<open>team\<close> by \<^verbatim>\<open>school\<close> give the same
  ranked results. The corpus variant hands the query to the matcher as it is: with a
  matcher that looks for the query text, \<^verbatim>\<open>team\<close> finds nothing in the demo tournament
  and \<^verbatim>\<open>school\<close> finds two teams.
\<close>

theorem search_queries_not_normalized_counterexample:
  "normalizedQuery ''team'' = normalizedQuery ''school'' \<and>
   corpus_results (substring_matcher corpus_keys) demo_store [''demo-2024''] ''team'' ''both'' 10 = [] \<and>
   map (c_id \<circ> fst)
     (corpus_results (substring_matcher corpus_keys) demo_store [''demo-2024''] ''school'' ''both'' 10) =
     [''demo-2024:7'', ''demo-2024:3''] \<and>
   search_corpus (substring_matcher corpus_keys) (Inr [''demo-2024.yaml'']) demo_store ''team'' None None =
     Inr (''No tournaments or teams found matching '' @ dq @ ''team'' @ dq) \<and>
   search_corpus (substring_matcher corpus_keys) (Inr [''demo-2024.yaml'']) demo_store ''school'' None None =
     Inr (''Search results for '' @ dq @ ''school'' @ dq @ '' (2 found):'' @ nl @ nl @
          ''TEAM: demo-2024:7'' @ nl @ nl @ ''TEAM: demo-2024:3'')"
  by code_simp

text \<open>
  C9, amended: in the catalog variant, the search results depend on the query only through
  its normal form, so two queries with the same normal form give the same ranked results
  for the same catalog, type and limit; the normal form is not changed by case-folding the
  query first, is the case-folded query when that does not contain \<^verbatim>\<open>team\<close>, and
  is \<^verbatim>\<open>school\<close> for the query \<^verbatim>\<open>team\<close>.
\<close>

theorem catalog_search_normalizes_query:
  "(normalizedQuery q1 = normalizedQuery q2 \<longrightarrow>
      catalog_results fuse fsf tournamentsFetch schoolsFetch q1 ty limit =
      catalog_results fuse fsf tournamentsFetch schoolsFetch q2 ty limit) \<and>
   normalizedQuery (toLowerCase q1) = normalizedQuery q1 \<and>
   (\<not> str_includes (toLowerCase q1) ''team'' \<longrightarrow> normalizedQuery q1 = toLowerCase q1) \<and>
   normalizedQuery ''team'' = ''school''"
proof -
  have a: "normalizedQuery q1 = normalizedQuery q2 \<longrightarrow>
      catalog_results fuse fsf tournamentsFetch schoolsFetch q1 ty limit =
      catalog_results fuse fsf tournamentsFetch schoolsFetch q2 ty limit"
  proof
    assume same: "normalizedQuery q1 = normalizedQuery q2"
    show "catalog_results fuse fsf tournamentsFetch schoolsFetch q1 ty limit =
      catalog_results fuse fsf tournamentsFetch schoolsFetch q2 ty limit"
      by (simp only: catalog_results_def same)
  qed
  have b: "normalizedQuery (toLowerCase q1) = normalizedQuery q1"
    by (simp add: normalizedQuery_def toLowerCase_idem)
  have c: "\<not> str_includes (toLowerCase q1) ''team'' \<longrightarrow> normalizedQuery q1 = toLowerCase q1"
    by (simp add: normalizedQuery_def replace_team_absent)
  have d: "normalizedQuery ''team'' = ''school''" by code_simp
  from a b c d show ?thesis by blast
qed

theorem catalog_search_normalizes_query_witness:
  "normalizedQuery ''Best TEAM in Ohio'' = normalizedQuery ''best school in OHIO'' \<and>
   normalizedQuery ''Best TEAM in Ohio'' = ''best school in ohio'' \<and>
   catalog_results (substring_matcher catalog_keys) True (Inr catalog_tournaments) (Inr catalog_schools)
       ''Best TEAM in Ohio'' ''all'' 20 =
   catalog_results (substring_matcher catalog_keys) True (Inr catalog_tournaments) (Inr catalog_schools)
       ''best school in OHIO'' ''all'' 20 \<and>
   normalizedQuery ''Teams and team_mates'' = ''teams and team_mates'' \<and>
   \<not> str_includes (toLowerCase ''Lincoln'') ''team'' \<and> normalizedQuery ''Lincoln'' = ''lincoln''"
proof -
  have a: "normalizedQuery ''Best TEAM in Ohio'' = normalizedQuery ''best school in OHIO''"
    by code_simp
  have b: "normalizedQuery ''Best TEAM in Ohio'' = ''best school in ohio''" by code_simp
  have c: "normalizedQuery ''Teams and team_mates'' = ''teams and team_mates''" by code_simp
  have d: "\<not> str_includes (toLowerCase ''Lincoln'') ''team''" by code_simp
  have e: "toLowerCase ''Lincoln'' = ''lincoln''" by code_simp
  note r = catalog_search_normalizes_query [where ?q1.0 = "''Best TEAM in Ohio''"
      and ?q2.0 = "''best school in OHIO''" and fuse = "substring_matcher catalog_keys"
      and fsf = True and tournamentsFetch = "Inr catalog_tournaments"
      and schoolsFetch = "Inr catalog_schools" and ty = "''all''" and limit = 20]
  note r' = catalog_search_normalizes_query [where ?q1.0 = "''Lincoln''"]
  from r a have x: "catalog_results (substring_matcher catalog_keys) True (Inr catalog_tournaments)
       (Inr catalog_schools) ''Best TEAM in Ohio'' ''all'' 20 =
     catalog_results (substring_matcher catalog_keys) True (Inr catalog_tournaments)
       (Inr catalog_schools) ''best school in OHIO'' ''all'' 20"
    by blast
  from r' d have "normalizedQuery ''Lincoln'' = toLowerCase ''Lincoln''" by blast
  with e have y: "normalizedQuery ''Lincoln'' = ''lincoln''" by (simp only:)
  from a b x c d y show ?thesis by blast
qed

subsection \<open>An unreadable results directory\<close>

text \<open>
  C10. When the results directory cannot be read, \<^verbatim>\<open>getAvailableTournaments\<close> returns
  the empty list: \<^verbatim>\<open>list_tournaments\<close> answers with a count of zero, and the corpus
  search, scanning no record, answers that nothing was found; neither raises an error.
\<close>

theorem unreadable_directory_gives_empty_list:
  assumes unreadable: "rd = Inl e"
  shows "getAvailableTournaments rd = [] \<and>
         list_tournaments rd = Inr (''Available Tournaments (0):'' @ nl) \<and>
         search_corpus fuse rd st query None limit_arg =
           Inr (''No tournaments or teams found matching '' @ dq @ query @ dq) \<and>
         search_corpus fuse rd st query (Some ty) limit_arg =
           Inr (''No '' @ (if ty = ''both'' then ''tournaments or teams'' else ty @ ''s'') @
                '' found matching '' @ dq @ query @ dq)"
proof -
  have a: "getAvailableTournaments rd = []"
    using unreadable by (simp add: getAvailableTournaments_def)
  have b: "list_tournaments rd = Inr (''Available Tournaments (0):'' @ nl)"
    by (simp add: list_tournaments_def a Let_def toString_def show_nat.simps digit_char_def)
  have c: "corpus_results fuse st [] query ty' limit' = []" for ty' limit'
    by (simp add: corpus_results_def slice0_Nil)
  have e: "search_corpus fuse rd st query None limit_arg =
           Inr (''No tournaments or teams found matching '' @ dq @ query @ dq)"
    by (simp add: search_corpus_def a c corpus_text_def)
  have f: "search_corpus fuse rd st query (Some ty) limit_arg =
           Inr (''No '' @ (if ty = ''both'' then ''tournaments or teams'' else ty @ ''s'') @
                '' found matching '' @ dq @ query @ dq)"
    by (simp add: search_corpus_def a c corpus_text_def)
  from a b e f show ?thesis by blast
qed

theorem unreadable_directory_gives_empty_list_witness:
  "(Inl enoent :: js_error + string list) = Inl enoent \<and>
   getAvailableTournaments (Inl enoent) = [] \<and>
   list_tournaments (Inl enoent) = Inr (''Available Tournaments (0):'' @ nl) \<and>
   search_corpus (substring_matcher corpus_keys) (Inl enoent) demo_store ''lincoln'' None None =
     Inr (''No tournaments or teams found matching '' @ dq @ ''lincoln'' @ dq)"
  using unreadable_directory_gives_empty_list [where rd = "Inl enoent" and e = enoent
      and fuse = "substring_matcher corpus_keys" and st = demo_store and query = "''lincoln''"
      and limit_arg = None]
  by blast

end
